theory Spec2Isabelle
  imports Complex_Main "HOL-Library.Word"
begin

section \<open>The vendor runtime\<close>

text \<open>
  The executors of the sources (the file with \<open>CpuExecutor::raw_copy_to\<close>,
  \<open>GpuExecutor::raw_alloc\<close>, ... and \<open>cuda/base/timer.cpp\<close>) are thin layers over the
  accelerator runtime (\<open>cudaMalloc\<close>, \<open>cudaMemcpy\<close>, ...). The runtime is not part of the
  repository, so it is modelled as an explicit machine state, and what the runtime answers
  to a call (its status code, the pointer or count it stores) is an explicit argument of the
  call: the theorems below hold for every answer the runtime can give.
\<close>

datatype cudaError_t =
    cudaSuccess
  | cudaErrorInvalidValue
  | cudaErrorMemoryAllocation
  | cudaErrorNoDevice
  | cudaErrorNotReady
  | cudaErrorInvalidResourceHandle
  | cudaErrorLaunchFailure

datatype cudaMemcpyKind =
    cudaMemcpyHostToHost
  | cudaMemcpyHostToDevice
  | cudaMemcpyDeviceToHost
  | cudaMemcpyDeviceToDevice

type_synonym byte = "8 word"
type_synonym ptr = nat
type_synonym size_type = nat
type_synonym cudaStream_t = nat
type_synonym cudaEvent_t = nat

definition nullptr :: ptr where
  "nullptr = 0"

datatype space = Host | Device

text \<open>Work enqueued on a stream: a kernel with its running time (ms), or an event marker.\<close>

datatype work = Kernel rat | Marker cudaEvent_t

record machine =
  mem :: "space \<Rightarrow> nat \<Rightarrow> byte"
  allocations :: "ptr \<rightharpoonup> size_type"
  current_device :: int
  pending :: "(cudaStream_t \<times> work) list"
  fired :: "cudaEvent_t \<rightharpoonup> rat"
  clock :: rat
  next_event :: cudaEvent_t

text \<open>The \<open>n\<close> bytes at address \<open>p\<close> of one memory space.\<close>

definition read_bytes :: "(nat \<Rightarrow> byte) \<Rightarrow> ptr \<Rightarrow> nat \<Rightarrow> byte list" where
  "read_bytes m p n = map (\<lambda>i. m (p + i)) [0..<n]"

definition buffer :: "machine \<Rightarrow> space \<Rightarrow> ptr \<Rightarrow> nat \<Rightarrow> byte list" where
  "buffer w s p n = read_bytes (mem w s) p n"

definition copy_bytes ::
  "(nat \<Rightarrow> byte) \<Rightarrow> ptr \<Rightarrow> (nat \<Rightarrow> byte) \<Rightarrow> ptr \<Rightarrow> nat \<Rightarrow> (nat \<Rightarrow> byte)" where
  "copy_bytes src_mem src dst_mem dst count =
     (\<lambda>a. if dst \<le> a \<and> a < dst + count then src_mem (src + (a - dst)) else dst_mem a)"

text \<open>Source and destination space of a copy kind.\<close>

fun src_space :: "cudaMemcpyKind \<Rightarrow> space" where
  "src_space cudaMemcpyHostToHost = Host"
| "src_space cudaMemcpyHostToDevice = Host"
| "src_space cudaMemcpyDeviceToHost = Device"
| "src_space cudaMemcpyDeviceToDevice = Device"

fun dst_space :: "cudaMemcpyKind \<Rightarrow> space" where
  "dst_space cudaMemcpyHostToHost = Host"
| "dst_space cudaMemcpyHostToDevice = Device"
| "dst_space cudaMemcpyDeviceToHost = Host"
| "dst_space cudaMemcpyDeviceToDevice = Device"

text \<open>
  \<open>cudaMemcpy(dst, src, count, kind)\<close>. \<open>status\<close> is the status the runtime reports for
  the call (its own, or that of an earlier asynchronous failure). On success the \<open>count\<close>
  bytes at \<open>src\<close> are stored at \<open>dst\<close>; a failing call stores nothing. With \<open>count = 0\<close> no
  byte is read or written. (Overlapping ranges of one space are outside the contract of
  the real call; the model copies them as \<open>memmove\<close> would.)
\<close>

definition cudaMemcpy ::
  "cudaError_t \<Rightarrow> ptr \<Rightarrow> ptr \<Rightarrow> size_type \<Rightarrow> cudaMemcpyKind \<Rightarrow> machine \<Rightarrow> cudaError_t \<times> machine" where
  "cudaMemcpy status dst src count kind w =
     (if status \<noteq> cudaSuccess then (status, w)
      else (cudaSuccess,
            w\<lparr>mem := (mem w)(dst_space kind :=
                 copy_bytes (mem w (src_space kind)) src (mem w (dst_space kind)) dst count)\<rparr>))"

text \<open>
  \<open>cudaMalloc(&devPtr, size)\<close>. The runtime's answer is its status and the pointer it
  stores through \<open>devPtr\<close>, if it stores one (the interface does not promise a store on
  failure, and a request of size 0 may be answered with success and a null pointer).
  \<open>held\<close> is the value \<open>*devPtr\<close> held before the call. A successful non-null answer
  becomes a live allocation.
\<close>

definition cudaMalloc ::
  "cudaError_t \<times> ptr option \<Rightarrow> ptr \<Rightarrow> size_type \<Rightarrow> machine \<Rightarrow> (cudaError_t \<times> ptr) \<times> machine" where
  "cudaMalloc answer held sz w =
     (case answer of
        (status, None) \<Rightarrow> ((status, held), w)
      | (status, Some p) \<Rightarrow>
          ((status, p),
           if status = cudaSuccess \<and> p \<noteq> nullptr
           then w\<lparr>allocations := (allocations w)(p \<mapsto> sz)\<rparr> else w))"

text \<open>
  \<open>cudaFree(devPtr)\<close>: ``if devPtr is 0, no operation is performed''; a live allocation
  is released; any other pointer is an invalid value.
\<close>

definition cudaFree :: "cudaError_t \<Rightarrow> ptr \<Rightarrow> machine \<Rightarrow> cudaError_t \<times> machine" where
  "cudaFree status devPtr w =
     (if devPtr = nullptr then (status, w)
      else if status \<noteq> cudaSuccess then (status, w)
      else (case allocations w devPtr of
              None \<Rightarrow> (cudaErrorInvalidValue, w)
            | Some _ \<Rightarrow> (cudaSuccess, w\<lparr>allocations := (allocations w)(devPtr := None)\<rparr>)))"

text \<open>
  \<open>cudaGetDeviceCount(&count)\<close>: the status and the count the runtime stores, if it
  stores one; \<open>held\<close> is the value of \<open>count\<close> before the call.
\<close>

definition cudaGetDeviceCount :: "cudaError_t \<times> int option \<Rightarrow> int \<Rightarrow> cudaError_t \<times> int" where
  "cudaGetDeviceCount answer held =
     (case answer of (status, None) \<Rightarrow> (status, held) | (status, Some n) \<Rightarrow> (status, n))"

text \<open>
  Running the work of one stream, in issue order, up to the marker of event \<open>ev\<close>: a
  kernel advances the device clock by its running time, a marker fires at the current
  clock. Work of other streams stays enqueued.
\<close>

fun run_stream ::
  "cudaStream_t \<Rightarrow> cudaEvent_t \<Rightarrow> (cudaStream_t \<times> work) list \<Rightarrow> rat \<Rightarrow> (cudaEvent_t \<rightharpoonup> rat)
     \<Rightarrow> (cudaStream_t \<times> work) list \<times> rat \<times> (cudaEvent_t \<rightharpoonup> rat)" where
  "run_stream s ev [] clk f = ([], clk, f)"
| "run_stream s ev ((s', Kernel d) # rest) clk f =
     (if s' = s then run_stream s ev rest (clk + d) f
      else (case run_stream s ev rest clk f of
              (rest', clk', f') \<Rightarrow> ((s', Kernel d) # rest', clk', f')))"
| "run_stream s ev ((s', Marker e) # rest) clk f =
     (if s' = s then
        (if e = ev then (rest, clk, f(e \<mapsto> clk)) else run_stream s ev rest clk (f(e \<mapsto> clk)))
      else (case run_stream s ev rest clk f of
              (rest', clk', f') \<Rightarrow> ((s', Marker e) # rest', clk', f')))"

text \<open>Running everything that is enqueued, on every stream.\<close>

fun run_all ::
  "(cudaStream_t \<times> work) list \<Rightarrow> rat \<Rightarrow> (cudaEvent_t \<rightharpoonup> rat) \<Rightarrow> rat \<times> (cudaEvent_t \<rightharpoonup> rat)" where
  "run_all [] clk f = (clk, f)"
| "run_all ((s, Kernel d) # rest) clk f = run_all rest (clk + d) f"
| "run_all ((s, Marker e) # rest) clk f = run_all rest clk (f(e \<mapsto> clk))"

text \<open>The stream on which the marker of an event is still enqueued, if it is.\<close>

fun marker_stream :: "cudaEvent_t \<Rightarrow> (cudaStream_t \<times> work) list \<Rightarrow> cudaStream_t option" where
  "marker_stream ev [] = None"
| "marker_stream ev ((s, Kernel d) # rest) = marker_stream ev rest"
| "marker_stream ev ((s, Marker e) # rest) = (if e = ev then Some s else marker_stream ev rest)"

text \<open>\<open>cudaDeviceSynchronize()\<close>: waits until all enqueued work has run.\<close>

definition cudaDeviceSynchronize :: "cudaError_t \<Rightarrow> machine \<Rightarrow> cudaError_t \<times> machine" where
  "cudaDeviceSynchronize status w =
     (if status \<noteq> cudaSuccess then (status, w)
      else (case run_all (pending w) (clock w) (fired w) of
              (clk, f) \<Rightarrow> (cudaSuccess, w\<lparr>pending := [], fired := f, clock := clk\<rparr>)))"

text \<open>\<open>cudaEventCreate(&event)\<close>: a fresh event handle.\<close>

definition cudaEventCreate ::
  "cudaError_t \<Rightarrow> cudaEvent_t \<Rightarrow> machine \<Rightarrow> (cudaError_t \<times> cudaEvent_t) \<times> machine" where
  "cudaEventCreate status held w =
     (if status \<noteq> cudaSuccess then ((status, held), w)
      else ((cudaSuccess, next_event w), w\<lparr>next_event := Suc (next_event w)\<rparr>))"

text \<open>
  \<open>cudaEventRecord(event, stream)\<close>: the marker is appended to the work of the stream
  and the call returns; nothing that is enqueued is run, the device clock does not move.
  Recording an event again overwrites its earlier state: an older marker of the event is
  dropped and the event counts as not fired.
\<close>

definition cudaEventRecord ::
  "cudaError_t \<Rightarrow> cudaEvent_t \<Rightarrow> cudaStream_t \<Rightarrow> machine \<Rightarrow> cudaError_t \<times> machine" where
  "cudaEventRecord status event stream w =
     (if status \<noteq> cudaSuccess then (status, w)
      else (cudaSuccess,
            w\<lparr>pending := filter (\<lambda>x. snd x \<noteq> Marker event) (pending w) @ [(stream, Marker event)],
              fired := (fired w)(event := None)\<rparr>))"

text \<open>
  \<open>cudaEventSynchronize(event)\<close>: waits until the marker of the event has fired, that
  is, runs the work enqueued before it on its stream; returns at once when the marker is
  not enqueued.
\<close>

definition cudaEventSynchronize :: "cudaError_t \<Rightarrow> cudaEvent_t \<Rightarrow> machine \<Rightarrow> cudaError_t \<times> machine" where
  "cudaEventSynchronize status event w =
     (if status \<noteq> cudaSuccess then (status, w)
      else (case marker_stream event (pending w) of
              None \<Rightarrow> (cudaSuccess, w)
            | Some s \<Rightarrow>
                (case run_stream s event (pending w) (clock w) (fired w) of
                   (rest, clk, f) \<Rightarrow>
                     (cudaSuccess, w\<lparr>pending := rest, fired := f, clock := clk\<rparr>))))"

text \<open>
  \<open>cudaEventElapsedTime(&ms, start, end)\<close>: the time between the two markers in
  milliseconds; \<open>cudaErrorNotReady\<close> while one of them is still enqueued,
  \<open>cudaErrorInvalidResourceHandle\<close> for an event that was never recorded. \<open>held\<close> is
  the value of \<open>ms\<close> before the call.
\<close>

definition cudaEventElapsedTime ::
  "cudaError_t \<Rightarrow> rat \<Rightarrow> cudaEvent_t \<Rightarrow> cudaEvent_t \<Rightarrow> machine \<Rightarrow> cudaError_t \<times> rat" where
  "cudaEventElapsedTime status held start stop w =
     (if status \<noteq> cudaSuccess then (status, held)
      else if marker_stream start (pending w) \<noteq> None \<or> marker_stream stop (pending w) \<noteq> None
      then (cudaErrorNotReady, held)
      else (case (fired w start, fired w stop) of
              (Some t0, Some t1) \<Rightarrow> (cudaSuccess, t1 - t0)
            | _ \<Rightarrow> (cudaErrorInvalidResourceHandle, held)))"

text \<open>The globally-current device of the runtime (\<open>hipGetDevice\<close>, \<open>hipSetDevice\<close>).\<close>

definition hipGetDevice :: "machine \<Rightarrow> int" where
  "hipGetDevice w = current_device w"

definition hipSetDevice :: "int \<Rightarrow> machine \<Rightarrow> machine" where
  "hipSetDevice d w = w\<lparr>current_device := d\<rparr>"

section \<open>Errors\<close>

text \<open>
  The exceptions the sources throw. The last two are not exceptions of the library: a
  failed \<open>GKO_ASSERT\<close> stops the call, and a cast of a value outside the range of the
  target type has no defined result.
\<close>

datatype error =
    AllocationError string size_type
  | CudaError cudaError_t
  | NotCompiled string
  | NotSupported
  | AssertionFailed
  | CastOutOfRange

text \<open>The kinds of section 7 of the specification.\<close>

datatype error_kind =
    AllocationErrorKind
  | RuntimeErrorKind
  | NotSupportedErrorKind
  | InvalidStateErrorKind
  | DeviceQueryErrorKind

text \<open>
  Modelled from the spec: the exception classes are declared in headers that are not among
  the sources. Section 7: an allocation that could not be satisfied is an AllocationError; a
  backend call that reported a non-success status is a RuntimeError that carries the status;
  an operation with no implementation for the requesting backend, ``not compiled for this
  configuration'' included, is a NotSupportedError. A failed assertion and an undefined
  cast are no error objects and have no kind.
\<close>

fun kind_of :: "error \<Rightarrow> error_kind option" where
  "kind_of (AllocationError dev n) = Some AllocationErrorKind"
| "kind_of (CudaError st) = Some RuntimeErrorKind"
| "kind_of (NotCompiled modname) = Some NotSupportedErrorKind"
| "kind_of NotSupported = Some NotSupportedErrorKind"
| "kind_of AssertionFailed = None"
| "kind_of CastOutOfRange = None"

text \<open>The backend status an error object carries, if it carries one.\<close>

fun status_of :: "error \<Rightarrow> cudaError_t option" where
  "status_of (CudaError st) = Some st"
| "status_of _ = None"

text \<open>
  The macros below are defined in \<open>exception_helpers.hpp\<close>, which is not among the
  sources.

  Modelled from the spec: \<open>CUDA_ERROR(errcode)\<close> builds the error object of a failed
  backend call, which carries the status (section 7).
\<close>

definition CUDA_ERROR :: "cudaError_t \<Rightarrow> error" where
  "CUDA_ERROR errcode = CudaError errcode"

text \<open>
  Modelled from the spec: \<open>ENSURE_ALLOCATED(ptr, dev, size)\<close> throws an AllocationError
  naming the device and the size when the pointer is null (sections 4.1 and 4.4: an
  allocation never returns a null pointer silently).
\<close>

definition ENSURE_ALLOCATED :: "ptr \<Rightarrow> string \<Rightarrow> size_type \<Rightarrow> error + unit" where
  "ENSURE_ALLOCATED p dev sz = (if p = nullptr then Inl (AllocationError dev sz) else Inr ())"

text \<open>
  Modelled from the spec: \<open>GKO_ASSERT_NO_CUDA_ERRORS(call)\<close> captures the status of the
  call and throws \<open>CUDA_ERROR\<close> of it when it is not success (section 4.4).
\<close>

definition GKO_ASSERT_NO_CUDA_ERRORS :: "cudaError_t \<Rightarrow> error + unit" where
  "GKO_ASSERT_NO_CUDA_ERRORS errcode =
     (if errcode \<noteq> cudaSuccess then Inl (CUDA_ERROR errcode) else Inr ())"

text \<open>
  Modelled from the spec: \<open>GKO_ASSERT(cond)\<close> is an assertion (section 4.4); the call
  does not go on when the condition is false.
\<close>

definition GKO_ASSERT :: "bool \<Rightarrow> error + unit" where
  "GKO_ASSERT cond = (if cond then Inr () else Inl AssertionFailed)"

text \<open>
  Modelled from the spec: \<open>NOT_COMPILED(module)\<close> is a function body that throws the
  ``not compiled for this backend'' error naming the module (section 4.2).
\<close>

definition NOT_COMPILED :: "string \<Rightarrow> error + 'a" where
  "NOT_COMPILED modname = Inl (NotCompiled modname)"

section \<open>The executors of the sources\<close>

text \<open>
  \<open>CpuExecutor::raw_copy_to(const GpuExecutor *, num_bytes, src_ptr, dest_ptr)\<close>: host
  to device.
\<close>

definition CpuExecutor_raw_copy_to_GpuExecutor ::
  "cudaError_t \<Rightarrow> size_type \<Rightarrow> ptr \<Rightarrow> ptr \<Rightarrow> machine \<Rightarrow> (error + unit) \<times> machine" where
  "CpuExecutor_raw_copy_to_GpuExecutor status num_bytes src_ptr dest_ptr w =
     (case cudaMemcpy status dest_ptr src_ptr num_bytes cudaMemcpyHostToDevice w of
        (errcode, w') \<Rightarrow>
          if errcode \<noteq> cudaSuccess then (Inl (CUDA_ERROR errcode), w') else (Inr (), w'))"

text \<open>\<open>GpuExecutor::free(void *ptr) const noexcept { cudaFree(ptr); }\<close>: the status is dropped.\<close>

definition GpuExecutor_free :: "cudaError_t \<Rightarrow> ptr \<Rightarrow> machine \<Rightarrow> machine" where
  "GpuExecutor_free status p w = snd (cudaFree status p w)"

text \<open>
  \<open>GpuExecutor::raw_alloc(num_bytes)\<close>. The local \<open>dev_ptr\<close> is declared without an
  initial value: \<open>indeterminate\<close> is what it holds before \<open>cudaMalloc\<close> is called. The
  status \<open>cudaMalloc\<close> returns is not looked at.
\<close>

definition GpuExecutor_raw_alloc ::
  "cudaError_t \<times> ptr option \<Rightarrow> ptr \<Rightarrow> size_type \<Rightarrow> machine \<Rightarrow> (error + ptr) \<times> machine" where
  "GpuExecutor_raw_alloc answer indeterminate num_bytes w =
     (let gpu = ''gpu'' in
      case cudaMalloc answer indeterminate num_bytes w of
        ((_, dev_ptr), w') \<Rightarrow>
          (case ENSURE_ALLOCATED dev_ptr gpu num_bytes of
             Inl e \<Rightarrow> (Inl e, w')
           | Inr _ \<Rightarrow> (Inr dev_ptr, w')))"

text \<open>\<open>GpuExecutor::raw_copy_to(const CpuExecutor *, ...)\<close>: device to host.\<close>

definition GpuExecutor_raw_copy_to_CpuExecutor ::
  "cudaError_t \<Rightarrow> size_type \<Rightarrow> ptr \<Rightarrow> ptr \<Rightarrow> machine \<Rightarrow> (error + unit) \<times> machine" where
  "GpuExecutor_raw_copy_to_CpuExecutor status num_bytes src_ptr dest_ptr w =
     (case cudaMemcpy status dest_ptr src_ptr num_bytes cudaMemcpyDeviceToHost w of
        (errcode, w') \<Rightarrow>
          if errcode \<noteq> cudaSuccess then (Inl (CUDA_ERROR errcode), w') else (Inr (), w'))"

text \<open>\<open>GpuExecutor::raw_copy_to(const GpuExecutor *, ...)\<close>: device to device.\<close>

definition GpuExecutor_raw_copy_to_GpuExecutor ::
  "cudaError_t \<Rightarrow> size_type \<Rightarrow> ptr \<Rightarrow> ptr \<Rightarrow> machine \<Rightarrow> (error + unit) \<times> machine" where
  "GpuExecutor_raw_copy_to_GpuExecutor status num_bytes src_ptr dest_ptr w =
     (case cudaMemcpy status dest_ptr src_ptr num_bytes cudaMemcpyDeviceToDevice w of
        (errcode, w') \<Rightarrow>
          if errcode \<noteq> cudaSuccess then (Inl (CUDA_ERROR errcode), w') else (Inr (), w'))"

text \<open>\<open>GpuExecutor::synchronize()\<close>.\<close>

definition GpuExecutor_synchronize :: "cudaError_t \<Rightarrow> machine \<Rightarrow> (error + unit) \<times> machine" where
  "GpuExecutor_synchronize status w =
     (case cudaDeviceSynchronize status w of
        (errcode, w') \<Rightarrow>
          if errcode \<noteq> cudaSuccess then (Inl (CUDA_ERROR errcode), w') else (Inr (), w'))"

text \<open>
  \<open>GpuExecutor::getDeviceCount()\<close>: \<open>deviceCount\<close> starts at 0; the test that decides
  the throw is on the count, the status is only what the error object carries.
\<close>

definition GpuExecutor_getDeviceCount :: "cudaError_t \<times> int option \<Rightarrow> error + int" where
  "GpuExecutor_getDeviceCount answer =
     (case cudaGetDeviceCount answer 0 of
        (errcode, deviceCount) \<Rightarrow>
          if deviceCount = 0 then Inl (CUDA_ERROR errcode) else Inr deviceCount)"

section \<open>The copy matrix\<close>

text \<open>The two executor classes of the source file and the memory space each owns.\<close>

datatype exec_type = Cpu | Gpu

fun memory_space :: "exec_type \<Rightarrow> space" where
  "memory_space Cpu = Host"
| "memory_space Gpu = Device"

text \<open>
  Modelled from the spec: \<open>CpuExecutor::raw_copy_to(const CpuExecutor *, ...)\<close> is not
  among the sources. Section 4.3: CPU to CPU is a plain memory copy; it reports no status.
\<close>

definition CpuExecutor_raw_copy_to_CpuExecutor ::
  "size_type \<Rightarrow> ptr \<Rightarrow> ptr \<Rightarrow> machine \<Rightarrow> (error + unit) \<times> machine" where
  "CpuExecutor_raw_copy_to_CpuExecutor num_bytes src_ptr dest_ptr w =
     (Inr (), w\<lparr>mem := (mem w)(Host :=
                 copy_bytes (mem w Host) src_ptr (mem w Host) dest_ptr num_bytes)\<rparr>)"

text \<open>
  Modelled from the spec: \<open>Executor::copy_from\<close> is declared in \<open>executor.hpp\<close>, which is
  not among the sources. Section 4.3: the destination executor dispatches on the concrete
  type of the source executor, whose \<open>raw_copy_to\<close> for that destination does the
  transfer. \<open>copy_from dest src_exec\<close> is \<open>dest->copy_from(src_exec, ...)\<close>.
\<close>

fun copy_from ::
  "exec_type \<Rightarrow> exec_type \<Rightarrow> cudaError_t \<Rightarrow> size_type \<Rightarrow> ptr \<Rightarrow> ptr \<Rightarrow> machine
     \<Rightarrow> (error + unit) \<times> machine" where
  "copy_from Cpu Cpu status = CpuExecutor_raw_copy_to_CpuExecutor"
| "copy_from Gpu Cpu status = CpuExecutor_raw_copy_to_GpuExecutor status"
| "copy_from Cpu Gpu status = GpuExecutor_raw_copy_to_CpuExecutor status"
| "copy_from Gpu Gpu status = GpuExecutor_raw_copy_to_GpuExecutor status"

text \<open>
  The round trip of the specification and of the tests \<open>CopiesDataToHip\<close>, \<open>CopiesDataFromHip\<close>:
  executor \<open>B\<close> pulls \<open>n\<close> bytes at \<open>orig\<close> from executor \<open>A\<close> into \<open>copy\<close>, then \<open>A\<close>
  pulls them back from \<open>B\<close> into \<open>back\<close>. An exception of the first copy ends the run.
\<close>

definition there_and_back ::
  "exec_type \<Rightarrow> exec_type \<Rightarrow> cudaError_t \<Rightarrow> cudaError_t \<Rightarrow> size_type \<Rightarrow> ptr \<Rightarrow> ptr \<Rightarrow> ptr
     \<Rightarrow> machine \<Rightarrow> (error + unit) \<times> machine" where
  "there_and_back A B st1 st2 n orig copy back w =
     (case copy_from B A st1 n orig copy w of
        (Inl e, w1) \<Rightarrow> (Inl e, w1)
      | (Inr _, w1) \<Rightarrow> copy_from A B st2 n copy back w1)"

text \<open>Two ranges of \<open>n\<close> bytes that do not overlap.\<close>

definition separate :: "ptr \<Rightarrow> ptr \<Rightarrow> nat \<Rightarrow> bool" where
  "separate p q n = (p + n \<le> q \<or> q + n \<le> p)"

text \<open>
  A machine whose host memory holds the bytes \<open>bs\<close> at address \<open>p\<close> and zero elsewhere,
  with nothing allocated or enqueued.
\<close>

definition host_with :: "ptr \<Rightarrow> byte list \<Rightarrow> machine" where
  "host_with p bs =
     \<lparr>mem = (\<lambda>s a. if s = Host \<and> p \<le> a \<and> a < p + length bs then bs ! (a - p) else 0),
      allocations = Map.empty, current_device = 0, pending = [], fired = Map.empty,
      clock = 0, next_event = 0\<rparr>"

text \<open>The array \<open>{3, 8}\<close> of two 4-byte integers, low byte first.\<close>

definition three_eight :: "byte list" where
  "three_eight = [3, 0, 0, 0, 8, 0, 0, 0]"

section \<open>The event timer\<close>

text \<open>
  The executor classes the test names, and an executor object as the timer and the tests
  use it: its class, the device ordinal it is bound to and its stream. The accessors
  \<open>get_device_id()\<close> and \<open>get_stream()\<close> are declared in \<open>executor.hpp\<close>, which is not
  among the sources; they read the two fields.
\<close>

datatype executor_kind = Omp | Reference | Cuda | Dpcpp | Hip

record Executor =
  exec_kind :: executor_kind
  bound_device :: int
  bound_stream :: cudaStream_t

definition get_stream :: "Executor \<Rightarrow> cudaStream_t" where
  "get_stream exec = bound_stream exec"

definition get_device_id :: "Executor \<Rightarrow> int" where
  "get_device_id exec = bound_device exec"

text \<open>
  \<open>time_point\<close>: the field \<open>type_\<close> is \<open>tp_type\<close> here, the member \<open>data_.cuda_event\<close>
  is \<open>cuda_event\<close>; the member \<open>exec_\<close> of the timer is \<open>timer_exec\<close>.
\<close>

datatype time_point_type = cpu | cuda | hip | dpcpp

record time_point =
  tp_type :: time_point_type
  cuda_event :: cudaEvent_t

record CudaTimer =
  timer_exec :: Executor

text \<open>
  \<open>CudaTimer::create_time_point()\<close>; \<open>fresh\<close> is the default-constructed \<open>result\<close>.
\<close>

definition CudaTimer_create_time_point ::
  "cudaError_t \<Rightarrow> time_point \<Rightarrow> machine \<Rightarrow> (error + time_point) \<times> machine" where
  "CudaTimer_create_time_point status fresh w =
     (let result = fresh\<lparr>tp_type := cuda\<rparr> in
      case cudaEventCreate status (cuda_event result) w of
        ((errcode, ev), w') \<Rightarrow>
          (case GKO_ASSERT_NO_CUDA_ERRORS errcode of
             Inl e \<Rightarrow> (Inl e, w')
           | Inr _ \<Rightarrow> (Inr (result\<lparr>cuda_event := ev\<rparr>), w')))"

text \<open>\<open>CudaTimer::record(time_point& time)\<close>.\<close>

definition CudaTimer_record ::
  "CudaTimer \<Rightarrow> cudaError_t \<Rightarrow> time_point \<Rightarrow> machine \<Rightarrow> (error + unit) \<times> machine" where
  "CudaTimer_record self status time w =
     (case GKO_ASSERT (tp_type time = cuda) of
        Inl e \<Rightarrow> (Inl e, w)
      | Inr _ \<Rightarrow>
          (case cudaEventRecord status (cuda_event time) (get_stream (timer_exec self)) w of
             (errcode, w') \<Rightarrow>
               (case GKO_ASSERT_NO_CUDA_ERRORS errcode of
                  Inl e \<Rightarrow> (Inl e, w')
                | Inr _ \<Rightarrow> (Inr (), w'))))"

text \<open>
  \<open>static_cast<int64>(x)\<close> of a floating-point value: the fraction is dropped (rounding
  towards zero); a value outside the range of \<open>int64\<close> has no defined result.
\<close>

definition static_cast_int64 :: "rat \<Rightarrow> int option" where
  "static_cast_int64 x =
     (let t = (if 0 \<le> x then \<lfloor>x\<rfloor> else \<lceil>x\<rceil>)
      in if - (2 ^ 63) \<le> t \<and> t < 2 ^ 63 then Some t else None)"

text \<open>
  \<open>CudaTimer::difference(start, stop)\<close>; \<open>st_sync\<close> and \<open>st_elapsed\<close> are the statuses
  the runtime reports for the two calls. \<open>ms\<close> is a \<open>float\<close>, here a rational number: the
  product \<open>ms * double{1e6}\<close> is exact (a 24-bit significand times \<open>15625 * 2^6\<close> fits
  the 53 bits of a \<open>double\<close>), so the rational product is the value that is cast.
\<close>

definition CudaTimer_difference ::
  "cudaError_t \<Rightarrow> cudaError_t \<Rightarrow> time_point \<Rightarrow> time_point \<Rightarrow> machine \<Rightarrow> (error + int) \<times> machine" where
  "CudaTimer_difference st_sync st_elapsed start stop w =
     (case GKO_ASSERT (tp_type start = cuda) of
        Inl e \<Rightarrow> (Inl e, w)
      | Inr _ \<Rightarrow>
     (case GKO_ASSERT (tp_type stop = cuda) of
        Inl e \<Rightarrow> (Inl e, w)
      | Inr _ \<Rightarrow>
     (case cudaEventSynchronize st_sync (cuda_event stop) w of
        (errcode, w') \<Rightarrow>
     (case GKO_ASSERT_NO_CUDA_ERRORS errcode of
        Inl e \<Rightarrow> (Inl e, w')
      | Inr _ \<Rightarrow>
     (case cudaEventElapsedTime st_elapsed 0 (cuda_event start) (cuda_event stop) w' of
        (errcode2, ms) \<Rightarrow>
     (case GKO_ASSERT_NO_CUDA_ERRORS errcode2 of
        Inl e \<Rightarrow> (Inl e, w')
      | Inr _ \<Rightarrow>
     (case static_cast_int64 (ms * 1000000) of
        None \<Rightarrow> (Inl CastOutOfRange, w')
      | Some ns \<Rightarrow> (Inr ns, w'))))))))"

text \<open>The marker of an event is enqueued on stream \<open>s\<close>.\<close>

definition enqueued_on :: "cudaStream_t \<Rightarrow> cudaEvent_t \<Rightarrow> machine \<Rightarrow> bool" where
  "enqueued_on s ev w = ((s, Marker ev) \<in> set (pending w))"

text \<open>The marker of an event is not enqueued any more and the event has fired.\<close>

definition has_fired :: "cudaEvent_t \<Rightarrow> machine \<Rightarrow> bool" where
  "has_fired ev w = (marker_stream ev (pending w) = None \<and> fired w ev \<noteq> None)"

section \<open>Operations and the accelerator executor\<close>

text \<open>
  An operation body works on the variable the operation captured (\<open>int& value\<close> in the
  test) and on the machine, and may throw.
\<close>

type_synonym 'v op_body = "'v \<Rightarrow> machine \<Rightarrow> (error + 'v) \<times> machine"

text \<open>An operation class: the \<open>run\<close> overrides it declares, by executor class.\<close>

type_synonym 'v Operation = "executor_kind \<Rightarrow> 'v op_body option"

text \<open>
  Modelled from the spec: \<open>Operation::run\<close> and \<open>Executor::run\<close> are defined in
  \<open>executor.hpp\<close>/\<open>executor.cpp\<close>, which are not among the sources. Section 4.2: an
  Operation exposes one entry point per backend kind, each with a default implementation
  that fails with the ``unsupported on this backend'' error unless overridden; the
  executor calls back into the operation with itself as argument.
\<close>

definition Operation_run :: "'v Operation \<Rightarrow> executor_kind \<Rightarrow> 'v op_body" where
  "Operation_run op k v w = (case op k of None \<Rightarrow> (Inl NotSupported, w) | Some body \<Rightarrow> body v w)"

text \<open>The executor classes that are bound to an accelerator device.\<close>

fun is_accelerator :: "executor_kind \<Rightarrow> bool" where
  "is_accelerator Omp = False"
| "is_accelerator Reference = False"
| "is_accelerator Cuda = True"
| "is_accelerator Dpcpp = True"
| "is_accelerator Hip = True"

text \<open>
  Modelled from the spec: the device guard of the accelerator executors is not among the
  sources. Sections 4.1 and 9: save the globally-current device, switch to the bound
  ordinal, do the work, restore the saved device on every exit path (the work returns its
  result, an error or a value, together with the machine it leaves).
\<close>

definition scoped_device_id_guard :: "int \<Rightarrow> (machine \<Rightarrow> 'a \<times> machine) \<Rightarrow> machine \<Rightarrow> 'a \<times> machine" where
  "scoped_device_id_guard device_id body w =
     (let original_device_id = hipGetDevice w in
      case body (hipSetDevice device_id w) of
        (r, w') \<Rightarrow> (r, hipSetDevice original_device_id w'))"

text \<open>
  Modelled from the spec: \<open>Executor::run\<close> of each executor class is not among the
  sources. Sections 4.1 and 4.2: the executor calls the entry point for its own class, an
  accelerator executor inside its device guard.
\<close>

definition Executor_run :: "Executor \<Rightarrow> 'v Operation \<Rightarrow> 'v op_body" where
  "Executor_run exec op v =
     (if is_accelerator (exec_kind exec)
      then scoped_device_id_guard (get_device_id exec) (Operation_run op (exec_kind exec) v)
      else Operation_run op (exec_kind exec) v)"

text \<open>
  Modelled from the spec: \<open>HipExecutor::alloc\<close> is not among the sources (its test is).
  Section 4.1: the method does its backend work inside the device guard and fails with
  AllocationError when the backend reports a failure or hands back no pointer.
\<close>

definition HipExecutor_alloc ::
  "Executor \<Rightarrow> cudaError_t \<times> ptr option \<Rightarrow> size_type \<Rightarrow> machine \<Rightarrow> (error + ptr) \<times> machine" where
  "HipExecutor_alloc exec answer num_bytes =
     scoped_device_id_guard (get_device_id exec)
       (\<lambda>w. case cudaMalloc answer nullptr num_bytes w of
               ((errcode, dev_ptr), w') \<Rightarrow>
                 if errcode \<noteq> cudaSuccess \<or> dev_ptr = nullptr
                 then (Inl (AllocationError ''hip'' num_bytes), w')
                 else (Inr dev_ptr, w'))"

text \<open>
  Modelled from the spec: \<open>HipExecutor::free\<close> is not among the sources. Section 4.1: a
  no-throw release inside the device guard; a failure of the backend call is swallowed.
\<close>

definition HipExecutor_free :: "Executor \<Rightarrow> cudaError_t \<Rightarrow> ptr \<Rightarrow> machine \<Rightarrow> unit \<times> machine" where
  "HipExecutor_free exec status p =
     scoped_device_id_guard (get_device_id exec) (\<lambda>w. ((), snd (cudaFree status p w)))"

text \<open>
  Modelled from the spec: the copy routines of \<open>HipExecutor\<close> are not among the sources.
  Sections 4.1 and 4.3: one transfer call inside the device guard; a failing status is
  thrown as the runtime-error kind.
\<close>

definition HipExecutor_copy ::
  "Executor \<Rightarrow> cudaMemcpyKind \<Rightarrow> cudaError_t \<Rightarrow> size_type \<Rightarrow> ptr \<Rightarrow> ptr \<Rightarrow> machine
     \<Rightarrow> (error + unit) \<times> machine" where
  "HipExecutor_copy exec kind status num_bytes src_ptr dest_ptr =
     scoped_device_id_guard (get_device_id exec)
       (\<lambda>w. case cudaMemcpy status dest_ptr src_ptr num_bytes kind w of
               (errcode, w') \<Rightarrow>
                 (case GKO_ASSERT_NO_CUDA_ERRORS errcode of
                    Inl e \<Rightarrow> (Inl e, w') | Inr _ \<Rightarrow> (Inr (), w')))"

text \<open>
  Modelled from the spec: \<open>HipExecutor::synchronize\<close> is not among the sources. Section
  4.1: waits for the enqueued work inside the device guard; a failing status is thrown as
  the runtime-error kind.
\<close>

definition HipExecutor_synchronize :: "Executor \<Rightarrow> cudaError_t \<Rightarrow> machine \<Rightarrow> (error + unit) \<times> machine" where
  "HipExecutor_synchronize exec status =
     scoped_device_id_guard (get_device_id exec)
       (\<lambda>w. case cudaDeviceSynchronize status w of
               (errcode, w') \<Rightarrow>
                 (case GKO_ASSERT_NO_CUDA_ERRORS errcode of
                    Inl e \<Rightarrow> (Inl e, w') | Inr _ \<Rightarrow> (Inr (), w')))"

text \<open>
  \<open>ExampleOperation\<close> of \<open>hip_executor.hip.cpp\<close>: an override for each of the five
  executor classes; the one for \<open>HipExecutor\<close> stores the current device in \<open>value\<close>.
\<close>

fun ExampleOperation :: "int Operation" where
  "ExampleOperation Omp = Some (\<lambda>value w. (Inr (- 1), w))"
| "ExampleOperation Reference = Some (\<lambda>value w. (Inr (- 2), w))"
| "ExampleOperation Cuda = Some (\<lambda>value w. (Inr (- 3), w))"
| "ExampleOperation Dpcpp = Some (\<lambda>value w. (Inr (- 4), w))"
| "ExampleOperation Hip = Some (\<lambda>value w. (Inr (hipGetDevice w), w))"

text \<open>
  A kernel of \<open>common_kernels.inc.cpp\<close>, the stand-in for a backend module that was not
  compiled: \<open>GKO_DECLARE_DENSE_SIMPLE_APPLY_KERNEL(ValueType) NOT_COMPILED(GKO_HOOK_MODULE);\<close>
\<close>

definition dense_simple_apply_hook :: "string \<Rightarrow> 'v op_body" where
  "dense_simple_apply_hook GKO_HOOK_MODULE v w = (NOT_COMPILED GKO_HOOK_MODULE, w)"

text \<open>
  An operation class that overrides \<open>run\<close> for the two host executors only.
\<close>

fun HostOnlyOperation :: "int Operation" where
  "HostOnlyOperation Omp = Some (\<lambda>value w. (Inr (- 1), w))"
| "HostOnlyOperation Reference = Some (\<lambda>value w. (Inr (- 2), w))"
| "HostOnlyOperation _ = None"

text \<open>
  The test \<open>PreservesDeviceSettings\<close>: the caller selects device \<open>previous_device\<close>, then
  allocates and frees through the executor \<open>hip\<close>; the result lists the current device
  after the allocation and after the release.
\<close>

definition PreservesDeviceSettings ::
  "Executor \<Rightarrow> int \<Rightarrow> cudaError_t \<times> ptr option \<Rightarrow> machine \<Rightarrow> error + int \<times> int" where
  "PreservesDeviceSettings hip_exec previous_device answer w =
     (let w0 = hipSetDevice previous_device w in
      case HipExecutor_alloc hip_exec answer (2 * 4) w0 of
        (Inl e, w1) \<Rightarrow> Inl e
      | (Inr orig, w1) \<Rightarrow>
          (let after_alloc = hipGetDevice w1;
               w2 = snd (HipExecutor_free hip_exec cudaSuccess orig w1)
           in Inr (after_alloc, hipGetDevice w2)))"

text \<open>
  The test \<open>RunsOnProperDevice\<close>: the caller selects device 0 and runs
  \<open>ExampleOperation\<close> on \<open>hip2\<close>; the result is \<open>value\<close>.
\<close>

definition RunsOnProperDevice :: "Executor \<Rightarrow> machine \<Rightarrow> error + int" where
  "RunsOnProperDevice hip2 w =
     (let value = - 1;
          w0 = hipSetDevice 0 w
      in fst (Executor_run hip2 ExampleOperation value w0))"

section \<open>Fixtures\<close>

text \<open>
  The fixture of \<open>hip_executor.hip.cpp\<close> on a machine with two devices:
  \<open>hip = HipExecutor::create(0, omp)\<close> and
  \<open>hip2 = HipExecutor::create(get_num_devices() - 1, omp)\<close>.
\<close>

definition fixture_hip :: Executor where
  "fixture_hip = \<lparr>exec_kind = Hip, bound_device = 0, bound_stream = 0\<rparr>"

definition fixture_hip2 :: Executor where
  "fixture_hip2 = \<lparr>exec_kind = Hip, bound_device = 1, bound_stream = 0\<rparr>"

text \<open>
  A timer on an executor with stream 7, two time points, and a machine on whose stream 7
  the start marker, a kernel of 2.5 ms and the stop marker are enqueued and have not run.
\<close>

definition fixture_timer :: CudaTimer where
  "fixture_timer = \<lparr>timer_exec = \<lparr>exec_kind = Cuda, bound_device = 0, bound_stream = 7\<rparr>\<rparr>"

definition tp_start :: time_point where
  "tp_start = \<lparr>tp_type = cuda, cuda_event = 0\<rparr>"

definition tp_stop :: time_point where
  "tp_stop = \<lparr>tp_type = cuda, cuda_event = 1\<rparr>"

definition busy :: machine where
  "busy = (host_with 0 [])\<lparr>pending := [(7, Marker 0), (7, Kernel (5 / 2)), (7, Marker 1)]\<rparr>"

section \<open>Properties of the copies\<close>

lemma read_bytes_copy_bytes: "read_bytes (copy_bytes S s D d n) d n = read_bytes S s n"
  by (simp add: read_bytes_def copy_bytes_def)

lemma copy_bytes_zero: "copy_bytes S s D d 0 = D"
  by (auto simp add: copy_bytes_def fun_eq_iff)

lemma cudaMemcpy_ok:
  "cudaMemcpy cudaSuccess dst src n k w =
     (cudaSuccess, w\<lparr>mem := (mem w)(dst_space k :=
         copy_bytes (mem w (src_space k)) src (mem w (dst_space k)) dst n)\<rparr>)"
  by (simp add: cudaMemcpy_def)

lemma cudaMemcpy_fail: "st \<noteq> cudaSuccess \<Longrightarrow> cudaMemcpy st dst src n k w = (st, w)"
  by (simp add: cudaMemcpy_def)

lemma cudaMemcpy_zero: "cudaMemcpy cudaSuccess dst src 0 k w = (cudaSuccess, w)"
  by (simp add: cudaMemcpy_ok copy_bytes_zero)

lemma copy_from_ok:
  "copy_from B A cudaSuccess n src dst w =
     (Inr (), w\<lparr>mem := (mem w)(memory_space B :=
         copy_bytes (mem w (memory_space A)) src (mem w (memory_space B)) dst n)\<rparr>)"
  by (cases A; cases B)
     (simp_all add: CpuExecutor_raw_copy_to_CpuExecutor_def CpuExecutor_raw_copy_to_GpuExecutor_def
        GpuExecutor_raw_copy_to_CpuExecutor_def GpuExecutor_raw_copy_to_GpuExecutor_def cudaMemcpy_ok)

lemma CpuGpu_zero:
  "CpuExecutor_raw_copy_to_GpuExecutor cudaSuccess 0 src_ptr dest_ptr w = (Inr (), w)"
  by (simp add: CpuExecutor_raw_copy_to_GpuExecutor_def cudaMemcpy_zero)

lemma GpuCpu_zero:
  "GpuExecutor_raw_copy_to_CpuExecutor cudaSuccess 0 src_ptr dest_ptr w = (Inr (), w)"
  by (simp add: GpuExecutor_raw_copy_to_CpuExecutor_def cudaMemcpy_zero)

lemma GpuGpu_zero:
  "GpuExecutor_raw_copy_to_GpuExecutor cudaSuccess 0 src_ptr dest_ptr w = (Inr (), w)"
  by (simp add: GpuExecutor_raw_copy_to_GpuExecutor_def cudaMemcpy_zero)

lemma CpuGpu_fail:
  "st \<noteq> cudaSuccess \<Longrightarrow>
     CpuExecutor_raw_copy_to_GpuExecutor st n src_ptr dest_ptr w = (Inl (CudaError st), w)"
  by (simp add: CpuExecutor_raw_copy_to_GpuExecutor_def cudaMemcpy_fail CUDA_ERROR_def)

lemma GpuCpu_fail:
  "st \<noteq> cudaSuccess \<Longrightarrow>
     GpuExecutor_raw_copy_to_CpuExecutor st n src_ptr dest_ptr w = (Inl (CudaError st), w)"
  by (simp add: GpuExecutor_raw_copy_to_CpuExecutor_def cudaMemcpy_fail CUDA_ERROR_def)

lemma GpuGpu_fail:
  "st \<noteq> cudaSuccess \<Longrightarrow>
     GpuExecutor_raw_copy_to_GpuExecutor st n src_ptr dest_ptr w = (Inl (CudaError st), w)"
  by (simp add: GpuExecutor_raw_copy_to_GpuExecutor_def cudaMemcpy_fail CUDA_ERROR_def)

text \<open>
  C1. For every buffer of \<open>n\<close> bytes at \<open>orig\<close> in the memory of executor \<open>A\<close> and every
  pair of executor classes \<open>(A, B)\<close>: when \<open>B\<close> pulls the buffer from \<open>A\<close> with
  \<open>copy_from\<close> and \<open>A\<close> pulls the result back, and the runtime reports success for both
  transfers, the round trip returns normally and the bytes that arrive at \<open>back\<close> are the
  bytes of the buffer. (Where both executors own the same memory space the ranges are taken
  not to overlap, as the contract of the transfer call asks.)
\<close>

theorem copy_round_trip:
  assumes "memory_space A = memory_space B \<longrightarrow> separate orig copy n \<and> separate copy back n"
  shows "\<exists>w'. there_and_back A B cudaSuccess cudaSuccess n orig copy back w = (Inr (), w')
            \<and> buffer w' (memory_space A) back n = buffer w (memory_space A) orig n"
  by (cases "memory_space A = memory_space B")
     (simp_all add: there_and_back_def copy_from_ok buffer_def read_bytes_copy_bytes)

text \<open>
  The scenario of the specification: the host array \<open>{3, 8}\<close> at address 100 is copied to
  the accelerator buffer at 4096 and back into a fresh host array at 200.
\<close>

theorem copy_round_trip_witness:
  "separate 100 4096 8 \<and> separate 4096 200 8
   \<and> fst (there_and_back Cpu Gpu cudaSuccess cudaSuccess 8 100 4096 200 (host_with 100 three_eight))
     = Inr ()
   \<and> buffer (snd (there_and_back Cpu Gpu cudaSuccess cudaSuccess 8 100 4096 200
        (host_with 100 three_eight))) Host 200 8 = three_eight"
proof -
  have orig: "buffer (host_with 100 three_eight) Host 100 8 = three_eight"
    by (simp add: buffer_def read_bytes_def host_with_def three_eight_def upt_rec)
  have sep: "separate 100 4096 8 \<and> separate 4096 200 8"
    by (simp add: separate_def)
  then have "memory_space Cpu = memory_space Gpu \<longrightarrow> separate 100 4096 8 \<and> separate 4096 200 8"
    by simp
  from copy_round_trip [OF this, of "host_with 100 three_eight"] orig sep
  show ?thesis by auto
qed

text \<open>
  A call with \<open>num_bytes = 0\<close> is handed to the runtime like any other: when the runtime
  reports a failure for it (here that of an earlier kernel launch), the routine throws.
\<close>

theorem zero_byte_copy_counterexample:
  "fst (CpuExecutor_raw_copy_to_GpuExecutor cudaErrorLaunchFailure 0 nullptr nullptr (host_with 0 []))
     = Inl (CudaError cudaErrorLaunchFailure)"
  by (simp add: CpuGpu_fail)

text \<open>
  C9, as the code has it. For each of the three copy routines and every pointer pair: a
  call with \<open>num_bytes = 0\<close> for which the runtime reports success returns normally and
  leaves the whole machine, so every byte of both memories, unchanged; and every call, of
  any size, for which the runtime reports a failure throws the error of the runtime-error
  kind that carries the status.
\<close>

theorem copy_zero_bytes_and_failures:
  "CpuExecutor_raw_copy_to_GpuExecutor cudaSuccess 0 src_ptr dest_ptr w = (Inr (), w)
   \<and> GpuExecutor_raw_copy_to_CpuExecutor cudaSuccess 0 src_ptr dest_ptr w = (Inr (), w)
   \<and> GpuExecutor_raw_copy_to_GpuExecutor cudaSuccess 0 src_ptr dest_ptr w = (Inr (), w)
   \<and> (st \<noteq> cudaSuccess \<longrightarrow>
        CpuExecutor_raw_copy_to_GpuExecutor st n src_ptr dest_ptr w = (Inl (CudaError st), w)
      \<and> GpuExecutor_raw_copy_to_CpuExecutor st n src_ptr dest_ptr w = (Inl (CudaError st), w)
      \<and> GpuExecutor_raw_copy_to_GpuExecutor st n src_ptr dest_ptr w = (Inl (CudaError st), w)
      \<and> kind_of (CudaError st) = Some RuntimeErrorKind)"
  by (simp add: CpuGpu_zero GpuCpu_zero GpuGpu_zero CpuGpu_fail GpuCpu_fail GpuGpu_fail)

theorem copy_zero_bytes_and_failures_witness:
  "cudaErrorInvalidValue \<noteq> cudaSuccess
   \<and> CpuExecutor_raw_copy_to_GpuExecutor cudaSuccess 0 nullptr nullptr (host_with 100 three_eight)
       = (Inr (), host_with 100 three_eight)
   \<and> GpuExecutor_raw_copy_to_CpuExecutor cudaErrorInvalidValue 8 4096 100 (host_with 100 three_eight)
       = (Inl (CudaError cudaErrorInvalidValue), host_with 100 three_eight)"
  using copy_zero_bytes_and_failures
    [of nullptr nullptr "host_with 100 three_eight" cudaErrorInvalidValue 8]
    copy_zero_bytes_and_failures
    [of 4096 100 "host_with 100 three_eight" cudaErrorInvalidValue 8]
  by simp

section \<open>Properties of the device count\<close>

lemma getDeviceCount_cases:
  "GpuExecutor_getDeviceCount (st, None) = Inl (CudaError st)"
  "GpuExecutor_getDeviceCount (st, Some 0) = Inl (CudaError st)"
  "n \<noteq> 0 \<Longrightarrow> GpuExecutor_getDeviceCount (st, Some n) = Inr n"
  by (simp_all add: GpuExecutor_getDeviceCount_def cudaGetDeviceCount_def CUDA_ERROR_def)

text \<open>
  With zero devices visible \<open>getDeviceCount\<close> throws \<open>CUDA_ERROR(errcode)\<close>: the very
  error object a failing copy throws for the same status, of the runtime-error kind. The
  code has no error of its own for device queries.
\<close>

theorem getDeviceCount_kind_counterexample:
  "GpuExecutor_getDeviceCount (cudaErrorNoDevice, Some 0) = Inl (CudaError cudaErrorNoDevice)
   \<and> fst (GpuExecutor_raw_copy_to_CpuExecutor cudaErrorNoDevice 8 4096 100 (host_with 0 []))
       = Inl (CudaError cudaErrorNoDevice)
   \<and> kind_of (CudaError cudaErrorNoDevice) = Some RuntimeErrorKind
   \<and> kind_of (CudaError cudaErrorNoDevice) \<noteq> Some DeviceQueryErrorKind"
  by (simp add: getDeviceCount_cases GpuCpu_fail)

text \<open>
  The throw is decided by the count alone: a failing status that comes with a count other
  than zero is not looked at.
\<close>

lemma getDeviceCount_status_not_tested:
  "GpuExecutor_getDeviceCount (cudaErrorLaunchFailure, Some 2) = Inr 2"
  by (simp add: getDeviceCount_cases)

text \<open>
  C2, as the code has it. Whenever the count is zero after the query (the runtime stored
  zero, or stored nothing), \<open>getDeviceCount\<close> throws the error of the runtime-error kind
  that carries the status of the query; it never returns 0.
\<close>

theorem getDeviceCount_zero_devices:
  "(snd answer = None \<or> snd answer = Some 0 \<longrightarrow>
      GpuExecutor_getDeviceCount answer = Inl (CudaError (fst answer))
      \<and> kind_of (CudaError (fst answer)) = Some RuntimeErrorKind)
   \<and> GpuExecutor_getDeviceCount answer \<noteq> Inr 0"
proof (cases answer)
  case (Pair st c)
  show ?thesis
  proof (cases c)
    case None
    with Pair show ?thesis by (simp add: getDeviceCount_cases)
  next
    case (Some n)
    with Pair show ?thesis by (cases "n = 0") (simp_all add: getDeviceCount_cases)
  qed
qed

theorem getDeviceCount_zero_devices_witness:
  "snd (cudaErrorNoDevice, Some (0::int)) = Some 0
   \<and> GpuExecutor_getDeviceCount (cudaErrorNoDevice, Some 0) = Inl (CudaError cudaErrorNoDevice)
   \<and> GpuExecutor_getDeviceCount (cudaSuccess, Some 0) \<noteq> Inr 0"
  using getDeviceCount_zero_devices [of "(cudaErrorNoDevice, Some 0)"]
    getDeviceCount_zero_devices [of "(cudaSuccess, Some 0)"]
  by simp

section \<open>Properties of allocation and release\<close>

lemma raw_alloc_unwritten:
  "GpuExecutor_raw_alloc (st, None) ind n w =
     (if ind = nullptr then (Inl (AllocationError ''gpu'' n), w) else (Inr ind, w))"
  by (simp add: GpuExecutor_raw_alloc_def cudaMalloc_def ENSURE_ALLOCATED_def)

lemma raw_alloc_null:
  "GpuExecutor_raw_alloc (st, Some nullptr) ind n w = (Inl (AllocationError ''gpu'' n), w)"
  by (simp add: GpuExecutor_raw_alloc_def cudaMalloc_def ENSURE_ALLOCATED_def)

lemma raw_alloc_pointer:
  "p \<noteq> nullptr \<Longrightarrow>
   GpuExecutor_raw_alloc (st, Some p) ind n w =
     (Inr p, if st = cudaSuccess then w\<lparr>allocations := (allocations w)(p \<mapsto> n)\<rparr> else w)"
  by (simp add: GpuExecutor_raw_alloc_def cudaMalloc_def ENSURE_ALLOCATED_def)

lemma raw_alloc_raises_if_null:
  "snd (fst (cudaMalloc answer ind n w)) = nullptr \<Longrightarrow>
     fst (GpuExecutor_raw_alloc answer ind n w) = Inl (AllocationError ''gpu'' n)"
  by (auto simp add: GpuExecutor_raw_alloc_def ENSURE_ALLOCATED_def split: prod.splits)

text \<open>What \<open>raw_alloc\<close> returns is never the null pointer.\<close>

lemma raw_alloc_never_null: "fst (GpuExecutor_raw_alloc answer ind n w) \<noteq> Inr nullptr"
  by (simp add: GpuExecutor_raw_alloc_def ENSURE_ALLOCATED_def split: prod.splits)

lemma free_live:
  "allocations w p = Some n \<Longrightarrow> p \<noteq> nullptr \<Longrightarrow>
     GpuExecutor_free cudaSuccess p w = w\<lparr>allocations := (allocations w)(p := None)\<rparr>"
  by (simp add: GpuExecutor_free_def cudaFree_def)

text \<open>
  C3. The allocation of \<open>2^50\<close> integers (\<open>2^52\<close> bytes) fails in the runtime with
  \<open>cudaErrorMemoryAllocation\<close>, and the runtime stores nothing through \<open>devPtr\<close>. The
  status is dropped and the local \<open>dev_ptr\<close> was never given a value: with the value it
  happens to hold not null, \<open>raw_alloc\<close> returns it as the allocated pointer and no
  AllocationError is thrown.
\<close>

theorem raw_alloc_failing_status_returns_pointer:
  "GpuExecutor_raw_alloc (cudaErrorMemoryAllocation, None) 3735928559 (2 ^ 52) w
     = (Inr 3735928559, w)"
  by (simp add: raw_alloc_unwritten nullptr_def)

text \<open>
  A request of size 0 that the runtime answers, as it may, with success and a null
  pointer: \<open>raw_alloc\<close> throws an AllocationError.
\<close>

theorem alloc_zero_counterexample:
  "fst (GpuExecutor_raw_alloc (cudaSuccess, Some nullptr) 7 0 (host_with 0 []))
     = Inl (AllocationError ''gpu'' 0)"
  by (simp add: raw_alloc_null)

text \<open>
  C4, as the code has it. \<open>alloc(0)\<close> returns normally when the runtime hands back a
  pointer that is not null: it returns that pointer, and \<open>free\<close> of it (which has no error
  result) releases it again. When the runtime hands back the null pointer for the request,
  \<open>alloc(0)\<close> throws an AllocationError.
\<close>

theorem alloc_zero_bytes:
  "(p \<noteq> nullptr \<longrightarrow>
      GpuExecutor_raw_alloc (cudaSuccess, Some p) ind 0 w
        = (Inr p, w\<lparr>allocations := (allocations w)(p \<mapsto> 0)\<rparr>)
      \<and> GpuExecutor_free cudaSuccess p (snd (GpuExecutor_raw_alloc (cudaSuccess, Some p) ind 0 w))
        = w\<lparr>allocations := (allocations w)(p := None)\<rparr>)
   \<and> GpuExecutor_raw_alloc (st, Some nullptr) ind 0 w = (Inl (AllocationError ''gpu'' 0), w)"
  by (simp add: raw_alloc_pointer raw_alloc_null free_live)

theorem alloc_zero_bytes_witness:
  "(4096::nat) \<noteq> nullptr
   \<and> fst (GpuExecutor_raw_alloc (cudaSuccess, Some 4096) 7 0 (host_with 0 [])) = Inr 4096
   \<and> GpuExecutor_free cudaSuccess 4096
        (snd (GpuExecutor_raw_alloc (cudaSuccess, Some 4096) 7 0 (host_with 0 []))) = host_with 0 []"
proof -
  have h: "(4096::nat) \<noteq> nullptr" by (simp add: nullptr_def)
  have e: "(host_with 0 [])\<lparr>allocations := (allocations (host_with 0 []))(4096 := None)\<rparr>
             = host_with 0 []"
    by (simp add: host_with_def)
  from alloc_zero_bytes [of 4096 7 "host_with 0 []" cudaSuccess] h
  have a: "GpuExecutor_raw_alloc (cudaSuccess, Some 4096) 7 0 (host_with 0 [])
             = (Inr 4096, (host_with 0 [])\<lparr>allocations := (allocations (host_with 0 []))(4096 \<mapsto> 0)\<rparr>)"
    and f: "GpuExecutor_free cudaSuccess 4096
              (snd (GpuExecutor_raw_alloc (cudaSuccess, Some 4096) 7 0 (host_with 0 [])))
             = (host_with 0 [])\<lparr>allocations := (allocations (host_with 0 []))(4096 := None)\<rparr>"
    by blast+
  from a have "fst (GpuExecutor_raw_alloc (cudaSuccess, Some 4096) 7 0 (host_with 0 [])) = Inr 4096"
    by simp
  moreover from f e have "GpuExecutor_free cudaSuccess 4096
        (snd (GpuExecutor_raw_alloc (cudaSuccess, Some 4096) 7 0 (host_with 0 []))) = host_with 0 []"
    by (rule trans)
  ultimately show ?thesis using h by blast
qed

lemma cudaFree_nullptr: "cudaFree status nullptr w = (status, w)"
  by (simp add: cudaFree_def)

text \<open>
  C10. \<open>free\<close> called with a null pointer raises nothing (it is \<open>noexcept\<close>: its model has
  no error result) and leaves the whole state unchanged, whatever status the runtime
  reports; this is the call a caller makes with the pointer a failed allocation left null.
\<close>

theorem free_nullptr_unchanged: "GpuExecutor_free status nullptr w = w"
  by (simp add: GpuExecutor_free_def cudaFree_nullptr)

section \<open>Translation of the backend status\<close>

lemma synchronize_fail:
  "st \<noteq> cudaSuccess \<Longrightarrow> GpuExecutor_synchronize st w = (Inl (CudaError st), w)"
  by (simp add: GpuExecutor_synchronize_def cudaDeviceSynchronize_def CUDA_ERROR_def)

lemma create_time_point_fail:
  "st \<noteq> cudaSuccess \<Longrightarrow> CudaTimer_create_time_point st fresh w = (Inl (CudaError st), w)"
  by (simp add: CudaTimer_create_time_point_def cudaEventCreate_def GKO_ASSERT_NO_CUDA_ERRORS_def
      CUDA_ERROR_def)

lemma record_fail:
  "st \<noteq> cudaSuccess \<Longrightarrow> tp_type time = cuda \<Longrightarrow>
     CudaTimer_record self st time w = (Inl (CudaError st), w)"
  by (simp add: CudaTimer_record_def cudaEventRecord_def GKO_ASSERT_def GKO_ASSERT_NO_CUDA_ERRORS_def
      CUDA_ERROR_def)

lemma difference_sync_fail:
  "st \<noteq> cudaSuccess \<Longrightarrow> tp_type start = cuda \<Longrightarrow> tp_type stop = cuda \<Longrightarrow>
     CudaTimer_difference st st2 start stop w = (Inl (CudaError st), w)"
  by (simp add: CudaTimer_difference_def cudaEventSynchronize_def GKO_ASSERT_def
      GKO_ASSERT_NO_CUDA_ERRORS_def CUDA_ERROR_def)

lemma cudaEventSynchronize_status:
  "fst (cudaEventSynchronize cudaSuccess ev w) = cudaSuccess"
  by (simp add: cudaEventSynchronize_def split: option.splits prod.splits)

text \<open>
  \<open>difference\<close> once the two assertions hold and the wait has returned: the elapsed time
  is asked for on the machine the wait left.
\<close>

lemma difference_after_sync:
  assumes "tp_type start = cuda" "tp_type stop = cuda"
  shows "CudaTimer_difference cudaSuccess st2 start stop w =
     (let w' = snd (cudaEventSynchronize cudaSuccess (cuda_event stop) w) in
      case cudaEventElapsedTime st2 0 (cuda_event start) (cuda_event stop) w' of
        (errcode2, ms) \<Rightarrow>
          if errcode2 \<noteq> cudaSuccess then (Inl (CudaError errcode2), w')
          else (case static_cast_int64 (ms * 1000000) of
                  None \<Rightarrow> (Inl CastOutOfRange, w')
                | Some ns \<Rightarrow> (Inr ns, w')))"
proof -
  obtain e w' where s: "cudaEventSynchronize cudaSuccess (cuda_event stop) w = (e, w')"
    by (cases "cudaEventSynchronize cudaSuccess (cuda_event stop) w")
  with cudaEventSynchronize_status [of "cuda_event stop" w] have e: "e = cudaSuccess" by simp
  show ?thesis
    using assms
    by (simp add: CudaTimer_difference_def s e GKO_ASSERT_def GKO_ASSERT_NO_CUDA_ERRORS_def
        CUDA_ERROR_def split: prod.splits)
qed

lemma difference_elapsed_fail:
  assumes "tp_type start = cuda" "tp_type stop = cuda" "st2 \<noteq> cudaSuccess"
  shows "CudaTimer_difference cudaSuccess st2 start stop w =
           (Inl (CudaError st2), snd (cudaEventSynchronize cudaSuccess (cuda_event stop) w))"
  using assms(3)
  by (simp add: difference_after_sync [OF assms(1,2)] cudaEventElapsedTime_def)

text \<open>
  The error \<open>raw_alloc\<close> throws names the device and the size; it is the same for every
  status the failed \<open>cudaMalloc\<close> reported and carries none.
\<close>

theorem alloc_error_without_status_counterexample:
  "fst (GpuExecutor_raw_alloc (cudaErrorMemoryAllocation, Some nullptr) 7 1024 (host_with 0 []))
     = Inl (AllocationError ''gpu'' 1024)
   \<and> fst (GpuExecutor_raw_alloc (cudaErrorInvalidValue, Some nullptr) 7 1024 (host_with 0 []))
     = Inl (AllocationError ''gpu'' 1024)
   \<and> status_of (AllocationError ''gpu'' 1024) = None"
  by (simp add: raw_alloc_null)

text \<open>
  C5, as the code has it. For the copy routines, \<open>synchronize\<close> and the event operations
  of the timer (\<open>create_time_point\<close>, \<open>record\<close>, and both runtime calls of
  \<open>difference\<close>), a failing status of the runtime call makes the function throw, at that
  call, the error that carries the status. \<open>raw_alloc\<close> reports a failed allocation
  through the pointer: when the pointer is null after \<open>cudaMalloc\<close> it throws an
  AllocationError, which names the device and the size and carries no status.
\<close>

theorem backend_status_translated:
  "(st \<noteq> cudaSuccess \<longrightarrow>
       CpuExecutor_raw_copy_to_GpuExecutor st n src_ptr dest_ptr w = (Inl (CudaError st), w)
     \<and> GpuExecutor_raw_copy_to_CpuExecutor st n src_ptr dest_ptr w = (Inl (CudaError st), w)
     \<and> GpuExecutor_raw_copy_to_GpuExecutor st n src_ptr dest_ptr w = (Inl (CudaError st), w)
     \<and> GpuExecutor_synchronize st w = (Inl (CudaError st), w)
     \<and> CudaTimer_create_time_point st fresh w = (Inl (CudaError st), w)
     \<and> (tp_type time = cuda \<longrightarrow> CudaTimer_record self st time w = (Inl (CudaError st), w))
     \<and> (tp_type start = cuda \<and> tp_type stop = cuda \<longrightarrow>
          CudaTimer_difference st st2 start stop w = (Inl (CudaError st), w)
        \<and> CudaTimer_difference cudaSuccess st start stop w
            = (Inl (CudaError st), snd (cudaEventSynchronize cudaSuccess (cuda_event stop) w)))
     \<and> status_of (CudaError st) = Some st)
   \<and> (snd (fst (cudaMalloc answer ind n w)) = nullptr \<longrightarrow>
        fst (GpuExecutor_raw_alloc answer ind n w) = Inl (AllocationError ''gpu'' n))
   \<and> status_of (AllocationError ''gpu'' n) = None"
  by (simp add: CpuGpu_fail GpuCpu_fail GpuGpu_fail synchronize_fail create_time_point_fail
      record_fail difference_sync_fail difference_elapsed_fail raw_alloc_raises_if_null)

theorem backend_status_translated_witness:
  "cudaErrorLaunchFailure \<noteq> cudaSuccess
   \<and> tp_type tp_start = cuda \<and> tp_type tp_stop = cuda
   \<and> GpuExecutor_synchronize cudaErrorLaunchFailure busy = (Inl (CudaError cudaErrorLaunchFailure), busy)
   \<and> CudaTimer_record fixture_timer cudaErrorLaunchFailure tp_stop busy
       = (Inl (CudaError cudaErrorLaunchFailure), busy)
   \<and> CudaTimer_difference cudaErrorLaunchFailure cudaSuccess tp_start tp_stop busy
       = (Inl (CudaError cudaErrorLaunchFailure), busy)
   \<and> snd (fst (cudaMalloc (cudaErrorMemoryAllocation, Some nullptr) 7 1024 busy)) = nullptr
   \<and> fst (GpuExecutor_raw_alloc (cudaErrorMemoryAllocation, Some nullptr) 7 1024 busy)
       = Inl (AllocationError ''gpu'' 1024)"
proof -
  have h: "cudaErrorLaunchFailure \<noteq> cudaSuccess" "tp_type tp_start = cuda" "tp_type tp_stop = cuda"
    "snd (fst (cudaMalloc (cudaErrorMemoryAllocation, Some nullptr) 7 1024 busy)) = nullptr"
    by (simp_all add: tp_start_def tp_stop_def cudaMalloc_def)
  from backend_status_translated [where st = cudaErrorLaunchFailure and w = busy and time = tp_stop
      and self = fixture_timer and start = tp_start and stop = tp_stop and ?st2.0 = cudaSuccess
      and answer = "(cudaErrorMemoryAllocation, Some nullptr)" and ind = 7 and n = 1024] h
  show ?thesis by simp
qed

section \<open>Properties of the event timer\<close>

lemma record_ok:
  "tp_type time = cuda \<Longrightarrow>
   CudaTimer_record self cudaSuccess time w =
     (Inr (), w\<lparr>pending := filter (\<lambda>x. snd x \<noteq> Marker (cuda_event time)) (pending w)
                              @ [(get_stream (timer_exec self), Marker (cuda_event time))],
               fired := (fired w)(cuda_event time := None)\<rparr>)"
  by (simp add: CudaTimer_record_def cudaEventRecord_def GKO_ASSERT_def GKO_ASSERT_NO_CUDA_ERRORS_def)

lemma record_effect:
  assumes "tp_type time = cuda"
    and "CudaTimer_record self cudaSuccess time w = (r, w')"
  shows "r = Inr ()"
    and "enqueued_on (get_stream (timer_exec self)) (cuda_event time) w'"
    and "clock w' = clock w"
    and "\<forall>x \<in> set (pending w). snd x \<noteq> Marker (cuda_event time) \<longrightarrow> x \<in> set (pending w')"
  using assms(2) by (auto simp add: record_ok [OF assms(1)] enqueued_on_def)

lemma marker_stream_kernels:
  "marker_stream ev (map (\<lambda>d. (s, Kernel d)) ds @ q) = marker_stream ev q"
  by (induction ds) simp_all

lemma run_stream_kernels:
  "run_stream s ev (map (\<lambda>d. (s, Kernel d)) ds @ q) clk f = run_stream s ev q (clk + sum_list ds) f"
  by (induction ds arbitrary: clk) (simp_all add: add.assoc)

text \<open>Waiting for an event whose marker is enqueued makes the event fire.\<close>

lemma run_stream_fires:
  "marker_stream ev q = Some s \<Longrightarrow> run_stream s ev q clk f = (q', clk', f') \<Longrightarrow> f' ev \<noteq> None"
proof (induction s ev q clk f arbitrary: q' clk' f' rule: run_stream.induct)
  case (1 s ev clk f)
  then show ?case by simp
next
  case (2 s ev s' d rest clk f)
  then show ?case by (auto split: if_splits prod.splits simp del: fun_upd_apply)
next
  case (3 s ev s' e rest clk f)
  then show ?case
    by (auto split: if_splits prod.splits simp del: fun_upd_apply simp add: fun_upd_same)
qed

lemma difference_result:
  assumes "tp_type start = cuda" "tp_type stop = cuda"
    and "CudaTimer_difference cudaSuccess cudaSuccess start stop w = (Inr ns, w')"
  shows "w' = snd (cudaEventSynchronize cudaSuccess (cuda_event stop) w)"
    and "has_fired (cuda_event stop) w'"
    and "\<exists>t0 t1. fired w' (cuda_event start) = Some t0 \<and> fired w' (cuda_event stop) = Some t1
           \<and> static_cast_int64 ((t1 - t0) * 1000000) = Some ns"
  using assms(3)
  by (auto simp add: difference_after_sync [OF assms(1,2)] Let_def cudaEventElapsedTime_def
      has_fired_def split: prod.splits if_splits option.splits)

lemma difference_measures_kernels:
  assumes "tp_type start = cuda" "tp_type stop = cuda"
    and "cuda_event start \<noteq> cuda_event stop"
    and "pending w = (s, Marker (cuda_event start)) # map (\<lambda>d. (s, Kernel d)) ds
                       @ [(s, Marker (cuda_event stop))]"
    and "static_cast_int64 (sum_list ds * 1000000) = Some ns"
  shows "CudaTimer_difference cudaSuccess cudaSuccess start stop w =
           (Inr ns, w\<lparr>pending := [],
                      fired := (fired w)(cuda_event start \<mapsto> clock w,
                                         cuda_event stop \<mapsto> clock w + sum_list ds),
                      clock := clock w + sum_list ds\<rparr>)"
proof -
  let ?a = "cuda_event start" and ?b = "cuda_event stop"
  have ms: "marker_stream ?b (pending w) = Some s"
    using assms(3) by (simp add: assms(4) marker_stream_kernels)
  have rs: "run_stream s ?b (pending w) (clock w) (fired w)
              = ([], clock w + sum_list ds, (fired w)(?a \<mapsto> clock w, ?b \<mapsto> clock w + sum_list ds))"
    using assms(3) by (simp add: assms(4) run_stream_kernels)
  have sync: "cudaEventSynchronize cudaSuccess ?b w =
     (cudaSuccess, w\<lparr>pending := [],
                      fired := (fired w)(?a \<mapsto> clock w, ?b \<mapsto> clock w + sum_list ds),
                      clock := clock w + sum_list ds\<rparr>)"
    by (simp add: cudaEventSynchronize_def ms rs)
  show ?thesis
    using assms(3,5)
    by (simp add: difference_after_sync [OF assms(1,2)] sync cudaEventElapsedTime_def)
qed

text \<open>
  Without the wait the elapsed time of the markers that have not run is not available:
  the runtime answers \<open>cudaErrorNotReady\<close>.
\<close>

lemma elapsed_without_sync:
  "cudaEventElapsedTime cudaSuccess 0 (cuda_event tp_start) (cuda_event tp_stop) busy
     = (cudaErrorNotReady, 0)"
  by (simp add: cudaEventElapsedTime_def busy_def tp_start_def tp_stop_def)

text \<open>
  C8. For an event timer and time points of the event kind: \<open>record\<close> returns normally
  with the marker of the time point enqueued on the stream of the timer's executor, and it
  does not wait: the device clock has not moved and the work that was enqueued is still
  enqueued. Whenever \<open>difference(start, stop)\<close> returns a value, it has first waited for
  the stop marker (the machine it leaves is the one the wait for \<open>stop\<close> leaves, and there
  the stop event has fired), and the value is the time between the two markers, which
  the runtime gives in milliseconds, times \<open>10^6\<close> with the fraction dropped: nanoseconds.
  And it does return: with the start marker, kernels and the stop marker enqueued on one
  stream and none of them run yet, \<open>difference\<close> runs them and returns the sum of the
  kernels' running times in nanoseconds.
\<close>

theorem timer_record_and_difference:
  "(tp_type time = cuda \<longrightarrow>
      fst (CudaTimer_record self cudaSuccess time w) = Inr ()
      \<and> enqueued_on (get_stream (timer_exec self)) (cuda_event time)
           (snd (CudaTimer_record self cudaSuccess time w))
      \<and> clock (snd (CudaTimer_record self cudaSuccess time w)) = clock w
      \<and> (\<forall>x \<in> set (pending w). snd x \<noteq> Marker (cuda_event time) \<longrightarrow>
            x \<in> set (pending (snd (CudaTimer_record self cudaSuccess time w)))))
   \<and> (tp_type start = cuda \<and> tp_type stop = cuda
        \<and> CudaTimer_difference cudaSuccess cudaSuccess start stop w = (Inr ns, w') \<longrightarrow>
      w' = snd (cudaEventSynchronize cudaSuccess (cuda_event stop) w)
      \<and> has_fired (cuda_event stop) w'
      \<and> (\<exists>t0 t1. fired w' (cuda_event start) = Some t0 \<and> fired w' (cuda_event stop) = Some t1
            \<and> static_cast_int64 ((t1 - t0) * 1000000) = Some ns))
   \<and> (tp_type start = cuda \<and> tp_type stop = cuda \<and> cuda_event start \<noteq> cuda_event stop
        \<and> pending w = (s, Marker (cuda_event start)) # map (\<lambda>d. (s, Kernel d)) ds
                         @ [(s, Marker (cuda_event stop))]
        \<and> static_cast_int64 (sum_list ds * 1000000) = Some ns \<longrightarrow>
      CudaTimer_difference cudaSuccess cudaSuccess start stop w =
        (Inr ns, w\<lparr>pending := [],
                   fired := (fired w)(cuda_event start \<mapsto> clock w,
                                      cuda_event stop \<mapsto> clock w + sum_list ds),
                   clock := clock w + sum_list ds\<rparr>))"
proof (intro conjI impI)
  assume t: "tp_type time = cuda"
  obtain r w1 where rec: "CudaTimer_record self cudaSuccess time w = (r, w1)"
    by (cases "CudaTimer_record self cudaSuccess time w")
  from record_effect [OF t rec] rec
  show "fst (CudaTimer_record self cudaSuccess time w) = Inr ()"
    and "enqueued_on (get_stream (timer_exec self)) (cuda_event time)
           (snd (CudaTimer_record self cudaSuccess time w))"
    and "clock (snd (CudaTimer_record self cudaSuccess time w)) = clock w"
    and "\<forall>x \<in> set (pending w). snd x \<noteq> Marker (cuda_event time) \<longrightarrow>
            x \<in> set (pending (snd (CudaTimer_record self cudaSuccess time w)))"
    by simp_all
next
  assume a: "tp_type start = cuda \<and> tp_type stop = cuda
        \<and> CudaTimer_difference cudaSuccess cudaSuccess start stop w = (Inr ns, w')"
  then have 1: "tp_type start = cuda" and 2: "tp_type stop = cuda"
    and 3: "CudaTimer_difference cudaSuccess cudaSuccess start stop w = (Inr ns, w')"
    by simp_all
  from difference_result [OF 1 2 3]
  show "w' = snd (cudaEventSynchronize cudaSuccess (cuda_event stop) w)"
    and "has_fired (cuda_event stop) w'"
    and "\<exists>t0 t1. fired w' (cuda_event start) = Some t0 \<and> fired w' (cuda_event stop) = Some t1
            \<and> static_cast_int64 ((t1 - t0) * 1000000) = Some ns"
    by simp_all
next
  assume a: "tp_type start = cuda \<and> tp_type stop = cuda \<and> cuda_event start \<noteq> cuda_event stop
        \<and> pending w = (s, Marker (cuda_event start)) # map (\<lambda>d. (s, Kernel d)) ds
                         @ [(s, Marker (cuda_event stop))]
        \<and> static_cast_int64 (sum_list ds * 1000000) = Some ns"
  then show "CudaTimer_difference cudaSuccess cudaSuccess start stop w =
        (Inr ns, w\<lparr>pending := [],
                   fired := (fired w)(cuda_event start \<mapsto> clock w,
                                      cuda_event stop \<mapsto> clock w + sum_list ds),
                   clock := clock w + sum_list ds\<rparr>)"
    by (intro difference_measures_kernels [where s = s]) simp_all
qed

lemma cast_two_and_a_half_ms: "static_cast_int64 (sum_list [5 / 2] * 1000000) = Some 2500000"
  by (simp add: static_cast_int64_def)

text \<open>
  On the machine \<open>busy\<close> nothing has run when \<open>difference\<close> is called; it returns
  2500000 ns with the device clock at 2.5 ms and the stop event fired.
\<close>

theorem timer_record_and_difference_witness:
  "tp_type tp_stop = cuda \<and> tp_type tp_start = cuda \<and> cuda_event tp_start \<noteq> cuda_event tp_stop
   \<and> fst (CudaTimer_record fixture_timer cudaSuccess tp_stop (host_with 0 [])) = Inr ()
   \<and> clock (snd (CudaTimer_record fixture_timer cudaSuccess tp_stop (host_with 0 []))) = 0
   \<and> fst (CudaTimer_difference cudaSuccess cudaSuccess tp_start tp_stop busy) = Inr 2500000
   \<and> clock (snd (CudaTimer_difference cudaSuccess cudaSuccess tp_start tp_stop busy)) = 5 / 2
   \<and> has_fired (cuda_event tp_stop)
        (snd (CudaTimer_difference cudaSuccess cudaSuccess tp_start tp_stop busy))"
proof -
  have t: "tp_type tp_stop = cuda" "tp_type tp_start = cuda" "cuda_event tp_start \<noteq> cuda_event tp_stop"
    by (simp_all add: tp_start_def tp_stop_def)
  have p: "pending busy = (7, Marker (cuda_event tp_start)) # map (\<lambda>d. (7, Kernel d)) [5 / 2]
                         @ [(7, Marker (cuda_event tp_stop))]"
    by (simp add: busy_def tp_start_def tp_stop_def)
  have c: "clock busy = 0" "clock (host_with 0 []) = 0"
    by (simp_all add: busy_def host_with_def)
  note T = timer_record_and_difference
  from T [where time = tp_stop and self = fixture_timer and w = "host_with 0 []", THEN conjunct1] t
  have r: "fst (CudaTimer_record fixture_timer cudaSuccess tp_stop (host_with 0 [])) = Inr ()"
    "clock (snd (CudaTimer_record fixture_timer cudaSuccess tp_stop (host_with 0 [])))
       = clock (host_with 0 [])"
    by blast+
  let ?W = "busy\<lparr>pending := [],
                   fired := (fired busy)(cuda_event tp_start \<mapsto> clock busy,
                                      cuda_event tp_stop \<mapsto> clock busy + sum_list [5 / 2]),
                   clock := clock busy + sum_list [5 / 2]\<rparr>"
  from T [where start = tp_start and stop = tp_stop and w = busy and ns = 2500000 and s = 7
      and ds = "[5 / 2]", THEN conjunct2, THEN conjunct2] t p cast_two_and_a_half_ms
  have d: "CudaTimer_difference cudaSuccess cudaSuccess tp_start tp_stop busy = (Inr 2500000, ?W)"
    by blast
  from T [where start = tp_start and stop = tp_stop and w = busy and ns = 2500000
      and w' = ?W, THEN conjunct2, THEN conjunct1] t d
  have f: "has_fired (cuda_event tp_stop) ?W"
    by blast
  have k: "clock ?W = 5 / 2"
    using c by simp
  have 1: "fst (CudaTimer_difference cudaSuccess cudaSuccess tp_start tp_stop busy) = Inr 2500000"
    and 2: "snd (CudaTimer_difference cudaSuccess cudaSuccess tp_start tp_stop busy) = ?W"
    by (simp_all only: d fst_conv snd_conv)
  from f k have 3: "has_fired (cuda_event tp_stop)
        (snd (CudaTimer_difference cudaSuccess cudaSuccess tp_start tp_stop busy))"
    and 4: "clock (snd (CudaTimer_difference cudaSuccess cudaSuccess tp_start tp_stop busy)) = 5 / 2"
    by (simp_all only: 2)
  from r c have 5: "clock (snd (CudaTimer_record fixture_timer cudaSuccess tp_stop (host_with 0 []))) = 0"
    by simp
  from t r(1) 1 3 4 5 show ?thesis by blast
qed

section \<open>The device guard and the dispatch of operations\<close>

lemma guard_restores:
  "current_device (snd (scoped_device_id_guard d body w)) = current_device w"
  by (simp add: scoped_device_id_guard_def hipGetDevice_def hipSetDevice_def split: prod.splits)

lemma guard_result:
  "fst (scoped_device_id_guard d body w) = fst (body (hipSetDevice d w))"
  by (simp add: scoped_device_id_guard_def split: prod.splits)

lemma guard_throwing:
  "scoped_device_id_guard d (\<lambda>w. (Inl e, w)) w = (Inl e, w)"
  by (simp add: scoped_device_id_guard_def hipGetDevice_def hipSetDevice_def)

text \<open>
  The \<open>GpuExecutor\<close> of the sources is not bound to a device and never selects one: its
  methods leave the globally-current device alone.
\<close>

lemma GpuExecutor_keeps_current_device:
  "current_device (snd (GpuExecutor_raw_alloc answer ind n w)) = current_device w"
  "current_device (GpuExecutor_free st p w) = current_device w"
  "current_device (snd (GpuExecutor_raw_copy_to_CpuExecutor st n src_ptr dest_ptr w)) = current_device w"
  "current_device (snd (GpuExecutor_raw_copy_to_GpuExecutor st n src_ptr dest_ptr w)) = current_device w"
  "current_device (snd (CpuExecutor_raw_copy_to_GpuExecutor st n src_ptr dest_ptr w)) = current_device w"
  "current_device (snd (GpuExecutor_synchronize st w)) = current_device w"
  by (auto simp add: GpuExecutor_raw_alloc_def GpuExecutor_free_def cudaMalloc_def cudaFree_def
      GpuExecutor_raw_copy_to_CpuExecutor_def GpuExecutor_raw_copy_to_GpuExecutor_def
      CpuExecutor_raw_copy_to_GpuExecutor_def GpuExecutor_synchronize_def cudaMemcpy_def
      cudaDeviceSynchronize_def
      split: prod.splits option.splits sum.splits)

text \<open>
  C6. For every method of the accelerator executor (\<open>alloc\<close>, \<open>free\<close>, the copies,
  \<open>synchronize\<close>, and \<open>run\<close> of any operation, also one that throws or selects a device
  itself) and every value of the globally-current device before the call: after the
  method has returned, with a value or with an error, the globally-current device is that
  value again; and the work of \<open>run\<close> is done with the bound ordinal selected.
\<close>

theorem current_device_restored:
  "current_device (snd (HipExecutor_alloc exec answer n w)) = current_device w
   \<and> current_device (snd (HipExecutor_free exec st p w)) = current_device w
   \<and> current_device (snd (HipExecutor_copy exec k st n src_ptr dest_ptr w)) = current_device w
   \<and> current_device (snd (HipExecutor_synchronize exec st w)) = current_device w
   \<and> (is_accelerator (exec_kind exec) \<longrightarrow>
        current_device (snd (Executor_run exec op v w)) = current_device w
      \<and> fst (Executor_run exec op v w)
          = fst (Operation_run op (exec_kind exec) v (hipSetDevice (get_device_id exec) w)))"
  by (simp add: HipExecutor_alloc_def HipExecutor_free_def HipExecutor_copy_def
      HipExecutor_synchronize_def Executor_run_def guard_restores guard_result)

text \<open>
  The tests \<open>PreservesDeviceSettings\<close> and \<open>RunsOnProperDevice\<close>, and an allocation that
  fails with device 1 selected by the caller.
\<close>

theorem current_device_restored_witness:
  "is_accelerator (exec_kind fixture_hip2)
   \<and> current_device (snd (HipExecutor_alloc fixture_hip (cudaErrorMemoryAllocation, None) (2 ^ 52)
        (hipSetDevice 1 (host_with 0 [])))) = 1
   \<and> PreservesDeviceSettings fixture_hip 1 (cudaSuccess, Some 4096) (host_with 0 []) = Inr (1, 1)
   \<and> current_device (snd (Executor_run fixture_hip2 ExampleOperation (- 1)
        (hipSetDevice 0 (host_with 0 [])))) = 0
   \<and> RunsOnProperDevice fixture_hip2 (host_with 0 []) = Inr (get_device_id fixture_hip2)"
proof -
  have a: "is_accelerator (exec_kind fixture_hip2)" by (simp add: fixture_hip2_def)
  have d: "current_device (hipSetDevice 1 (host_with 0 [])) = 1"
          "current_device (hipSetDevice 0 (host_with 0 [])) = 0"
    by (simp_all add: hipSetDevice_def)
  note T = current_device_restored
  from T [where exec = fixture_hip and answer = "(cudaErrorMemoryAllocation, None)" and n = "2 ^ 52"
      and w = "hipSetDevice 1 (host_with 0 [])", THEN conjunct1] d
  have 1: "current_device (snd (HipExecutor_alloc fixture_hip (cudaErrorMemoryAllocation, None) (2 ^ 52)
        (hipSetDevice 1 (host_with 0 [])))) = 1"
    by simp
  from T [where exec = fixture_hip2 and w = "hipSetDevice 0 (host_with 0 [])" and op = ExampleOperation
      and v = "- 1", THEN conjunct2, THEN conjunct2, THEN conjunct2, THEN conjunct2] a d
  have 2: "current_device (snd (Executor_run fixture_hip2 ExampleOperation (- 1)
             (hipSetDevice 0 (host_with 0 [])))) = 0"
    and 3: "fst (Executor_run fixture_hip2 ExampleOperation (- 1) (hipSetDevice 0 (host_with 0 [])))
          = fst (Operation_run ExampleOperation (exec_kind fixture_hip2) (- 1)
                  (hipSetDevice (get_device_id fixture_hip2) (hipSetDevice 0 (host_with 0 []))))"
    by simp_all
  have 4: "PreservesDeviceSettings fixture_hip 1 (cudaSuccess, Some 4096) (host_with 0 []) = Inr (1, 1)"
    by (simp add: PreservesDeviceSettings_def fixture_hip_def HipExecutor_alloc_def HipExecutor_free_def
        scoped_device_id_guard_def hipGetDevice_def hipSetDevice_def cudaMalloc_def nullptr_def
        cudaFree_def get_device_id_def host_with_def)
  from 3 have 5: "RunsOnProperDevice fixture_hip2 (host_with 0 []) = Inr (get_device_id fixture_hip2)"
    by (simp add: RunsOnProperDevice_def Operation_run_def fixture_hip2_def hipGetDevice_def
        hipSetDevice_def)
  from a 1 2 4 5 show ?thesis by simp
qed

text \<open>
  C7. For every operation, every executor and every state: when the operation has no
  override for the class of the executor, \<open>run\<close> throws the error of the not-supported
  kind and leaves the machine as it was, so that no body of another backend has run; when
  it has one, \<open>run\<close> is that override and nothing else (inside the device guard on an
  accelerator); and an override that calls a kernel of a module that was not compiled
  throws the ``not compiled'' error of that module, which is of the not-supported kind too.
\<close>

theorem run_dispatch:
  "(op (exec_kind exec) = None \<longrightarrow>
      Executor_run exec op v w = (Inl NotSupported, w)
      \<and> kind_of NotSupported = Some NotSupportedErrorKind)
   \<and> (\<forall>body. op (exec_kind exec) = Some body \<longrightarrow>
        Executor_run exec op v w =
          (if is_accelerator (exec_kind exec)
           then scoped_device_id_guard (get_device_id exec) (body v) w
           else body v w))
   \<and> (op (exec_kind exec) = Some (dense_simple_apply_hook modname) \<longrightarrow>
        Executor_run exec op v w = (Inl (NotCompiled modname), w)
        \<and> kind_of (NotCompiled modname) = Some NotSupportedErrorKind)"
proof -
  have "op (exec_kind exec) = None \<Longrightarrow>
          Operation_run op (exec_kind exec) v = (\<lambda>w. (Inl NotSupported, w))"
    by (simp add: Operation_run_def fun_eq_iff)
  moreover have "\<And>body. op (exec_kind exec) = Some body \<Longrightarrow>
          Operation_run op (exec_kind exec) v = body v"
    by (simp add: Operation_run_def fun_eq_iff)
  moreover have "dense_simple_apply_hook modname v = (\<lambda>w. (Inl (NotCompiled modname), w))"
    by (simp add: dense_simple_apply_hook_def NOT_COMPILED_def fun_eq_iff)
  ultimately show ?thesis
    by (simp add: Executor_run_def guard_throwing)
qed

theorem run_dispatch_witness:
  "HostOnlyOperation (exec_kind fixture_hip2) = None
   \<and> Executor_run fixture_hip2 HostOnlyOperation 5 (host_with 0 []) = (Inl NotSupported, host_with 0 [])
   \<and> ExampleOperation (exec_kind fixture_hip2) = Some (\<lambda>value w. (Inr (hipGetDevice w), w))
   \<and> fst (Executor_run fixture_hip2 ExampleOperation 5 (host_with 0 [])) = Inr 1"
proof -
  have n: "HostOnlyOperation (exec_kind fixture_hip2) = None"
    and s: "ExampleOperation (exec_kind fixture_hip2) = Some (\<lambda>value w. (Inr (hipGetDevice w), w))"
    and a: "is_accelerator (exec_kind fixture_hip2)"
    by (simp_all add: fixture_hip2_def)
  from run_dispatch [where op = HostOnlyOperation and exec = fixture_hip2 and v = 5
      and w = "host_with 0 []", THEN conjunct1] n
  have 1: "Executor_run fixture_hip2 HostOnlyOperation 5 (host_with 0 [])
             = (Inl NotSupported, host_with 0 [])"
    by simp
  from run_dispatch [where op = ExampleOperation and exec = fixture_hip2 and v = 5
      and w = "host_with 0 []", THEN conjunct2, THEN conjunct1] s a
  have "Executor_run fixture_hip2 ExampleOperation 5 (host_with 0 [])
          = scoped_device_id_guard (get_device_id fixture_hip2) (\<lambda>w. (Inr (hipGetDevice w), w))
              (host_with 0 [])"
    by simp
  then have 2: "fst (Executor_run fixture_hip2 ExampleOperation 5 (host_with 0 [])) = Inr 1"
    by (simp add: scoped_device_id_guard_def hipGetDevice_def hipSetDevice_def get_device_id_def
        fixture_hip2_def)
  from n s 1 2 show ?thesis by simp
qed

end
